theory Spec2Isabelle
  imports Complex_Main
begin

section \<open>Python values used by the notebook\<close>

text \<open>
  The notebook \<^verbatim>\<open>okada_los_components.ipynb\<close> computes with Python floats and
  numpy arrays of floats. Floats are idealised as the reals: \<^verbatim>\<open>math.sin\<close> and
  \<^verbatim>\<open>math.cos\<close> are \<open>sin\<close> and \<open>cos\<close>, and \<^verbatim>\<open>math.radians\<close> multiplies by
  \<open>pi / 180\<close>. Two exceptions can arise in the code cells: a float division by zero
  and a failed \<^verbatim>\<open>assert\<close>. Both are values of \<open>py_error\<close>, and a cell that can
  raise returns \<open>py_error + 'a\<close>.
\<close>

datatype py_error = ZeroDivisionError | AssertionError

definition radians :: "real \<Rightarrow> real" where
  "radians x = x * (pi / 180)"

definition py_div :: "real \<Rightarrow> real \<Rightarrow> py_error + real" where
  "py_div a b = (if b = 0 then Inl ZeroDivisionError else Inr (a / b))"

subsection \<open>numpy arrays\<close>

text \<open>
  A two-dimensional array is the list of its rows. \<open>zeros\<close> is \<^verbatim>\<open>numpy.zeros((n0, n1))\<close>,
  \<open>linspace\<close> is \<^verbatim>\<open>numpy.linspace(start, stop, num)\<close> (endpoint included, so the step
  is \<open>(stop - start) / (num - 1)\<close>), \<open>np_dot\<close> is the matrix product \<^verbatim>\<open>A.dot(B)\<close>,
  \<open>np_multiply\<close> scales every entry by a scalar and \<open>np_add\<close> adds two arrays of the
  same shape entry by entry. \<open>set2 A i j v\<close> is the assignment \<^verbatim>\<open>A[i, j] = v\<close>.
\<close>

type_synonym array2 = "real list list"

definition zeros :: "nat \<Rightarrow> nat \<Rightarrow> array2" where
  "zeros n0 n1 = replicate n0 (replicate n1 0)"

definition linspace :: "real \<Rightarrow> real \<Rightarrow> nat \<Rightarrow> real list" where
  "linspace start stop num =
     map (\<lambda>k. start + real k * ((stop - start) / real (num - 1))) [0..<num]"

definition ncols :: "array2 \<Rightarrow> nat" where
  "ncols A = (case A of [] \<Rightarrow> 0 | r # _ \<Rightarrow> length r)"

definition column :: "array2 \<Rightarrow> nat \<Rightarrow> real list" where
  "column A k = map (\<lambda>r. r ! k) A"

definition np_dot :: "array2 \<Rightarrow> array2 \<Rightarrow> array2" where
  "np_dot A B =
     map (\<lambda>r. map (\<lambda>k. sum_list (map2 (*) r (column B k))) [0..<ncols B]) A"

definition np_transpose :: "array2 \<Rightarrow> array2" where
  "np_transpose A = map (column A) [0..<ncols A]"

definition np_multiply :: "array2 \<Rightarrow> real \<Rightarrow> array2" where
  "np_multiply A c = map (map (\<lambda>v. v * c)) A"

definition np_add :: "array2 \<Rightarrow> array2 \<Rightarrow> array2" where
  "np_add A B = map2 (map2 (+)) A B"

definition set2 :: "array2 \<Rightarrow> nat \<Rightarrow> nat \<Rightarrow> real \<Rightarrow> array2" where
  "set2 A i j v = A[i := (A ! i)[j := v]]"

definition has_shape :: "array2 \<Rightarrow> nat \<Rightarrow> nat \<Rightarrow> bool" where
  "has_shape A n0 n1 = (length A = n0 \<and> list_all (\<lambda>r. length r = n1) A)"

definition det2 :: "array2 \<Rightarrow> real" where
  "det2 A = A ! 0 ! 0 * A ! 1 ! 1 - A ! 0 ! 1 * A ! 1 ! 0"

definition identity2 :: array2 where
  "identity2 = [[1, 0], [0, 1]]"

section \<open>Material and fault parameters\<close>

text \<open>
  \<^verbatim>\<open>alpha = (lmda + mu) / (lmda + 2 * mu)\<close>, and the nine scalars of the fault
  parameter cell.
\<close>

definition okada_alpha :: "real \<Rightarrow> real \<Rightarrow> py_error + real" where
  "okada_alpha lmda mu = py_div (lmda + mu) (lmda + 2 * mu)"

record fault_parameters =
  strike :: real
  dip :: real
  rake :: real
  slip :: real
  as_length :: real
  dd_width :: real
  cd_depth :: real
  xs :: real
  ys :: real

definition reference_fault :: fault_parameters where
  "reference_fault =
     \<lparr>strike = 1, dip = 85, rake = -1, slip = 2, as_length = 15000, dd_width = 10000,
      cd_depth = 6000, xs = 0, ys = 0\<rparr>"

section \<open>Geometry normalisation\<close>

text \<open>
  The centroid cell:
  \<^verbatim>\<open>
  rc=cd_depth/tan(radians(dip))
  rcx=rc*sin(radians(strike+90))
  rcy=rc*cos(radians(strike+90))
  xc=xs+rcx
  yc=ys+rcy
  \<close>
  The division is the only statement that can raise. Whether it does depends on the
  value the tangent routine returns, so \<open>centroid_with\<close> takes that routine as an
  argument; \<open>centroid\<close> is the cell with the exact tangent. The exact tangent has
  poles where the cosine vanishes, and the library routine on doubles has none: the
  statements about \<open>centroid\<close> below are made where the cosine of the dip is not zero.
\<close>

record fault_centroid =
  rc :: real
  rcx :: real
  rcy :: real
  xc :: real
  yc :: real

definition centroid_with :: "(real \<Rightarrow> real) \<Rightarrow> fault_parameters \<Rightarrow> py_error + fault_centroid" where
  "centroid_with tanf fp =
     (case py_div (cd_depth fp) (tanf (radians (dip fp))) of
        Inl e \<Rightarrow> Inl e
      | Inr r \<Rightarrow>
          (let cx = r * sin (radians (strike fp + 90));
               cy = r * cos (radians (strike fp + 90))
           in Inr \<lparr>rc = r, rcx = cx, rcy = cy, xc = xs fp + cx, yc = ys fp + cy\<rparr>))"

definition centroid :: "fault_parameters \<Rightarrow> py_error + fault_centroid" where
  "centroid fp = centroid_with tan fp"

text \<open>
  The slip cell:
  \<^verbatim>\<open>
  ss=slip*cos(radians(rake))
  ds=slip*sin(radians(rake))
  \<close>
\<close>

record slip_components =
  ss :: real
  ds :: real

definition slip_decomposition :: "fault_parameters \<Rightarrow> slip_components" where
  "slip_decomposition fp =
     \<lparr>ss = slip fp * cos (radians (rake fp)), ds = slip fp * sin (radians (rake fp))\<rparr>"

text \<open>
  The rotation cell:
  \<^verbatim>\<open>
  R=np.array([[cos(radians(strike-90)), -sin(radians(strike-90))],
              [sin(radians(strike-90)), cos(radians(strike-90))]])
  \<close>
\<close>

definition R :: "real \<Rightarrow> array2" where
  "R strk =
     [[cos (radians (strk - 90)), - sin (radians (strk - 90))],
      [sin (radians (strk - 90)), cos (radians (strk - 90))]]"

section \<open>Grid evaluation\<close>

text \<open>
  \<^verbatim>\<open>dc3dwrapper\<close> is the external Okada routine. It is an argument of the model:
  a function of the seven arguments of the call that returns the triple
  \<^verbatim>\<open>success, u, grad_u\<close>. The gradient is not used, so its type is left open.
\<close>

type_synonym vec3 = "real \<times> real \<times> real"

type_synonym 'g dc3d =
  "real \<Rightarrow> vec3 \<Rightarrow> real \<Rightarrow> real \<Rightarrow> real \<times> real \<Rightarrow> real \<times> real \<Rightarrow> vec3 \<Rightarrow> int \<times> vec3 \<times> 'g"

text \<open>
  The observation point of grid cell \<open>(i, j)\<close>, shifted and rotated:
  \<^verbatim>\<open>
  P=np.array([[x[i]-xc],[y[j]-yc]])
  Q=R.dot(P)
  \<close>
  and the three assignments after the call:
  \<^verbatim>\<open>
  UX[i, j] = u[0]*sin(radians(strike))-u[1]*cos(radians(strike))
  UY[i, j] = u[0]*cos(radians(strike))-u[1]*sin(radians(strike))
  UZ[i, j] = u[2]
  \<close>
\<close>

definition okada_point :: "real \<Rightarrow> fault_centroid \<Rightarrow> real \<Rightarrow> real \<Rightarrow> array2" where
  "okada_point strk c xi yj = np_dot (R strk) [[xi - xc c], [yj - yc c]]"

definition map_frame :: "real \<Rightarrow> vec3 \<Rightarrow> vec3" where
  "map_frame strk u =
     (case u of (u0, u1, u2) \<Rightarrow>
        (u0 * sin (radians strk) - u1 * cos (radians strk),
         u0 * cos (radians strk) - u1 * sin (radians strk),
         u2))"

definition dc3d_call ::
  "'g dc3d \<Rightarrow> real \<Rightarrow> fault_parameters \<Rightarrow> fault_centroid \<Rightarrow> slip_components \<Rightarrow>
     real \<Rightarrow> real \<Rightarrow> int \<times> vec3 \<times> 'g" where
  "dc3d_call solver alpha fp c s xi yj =
     (let Q = okada_point (strike fp) c xi yj
      in solver alpha (Q ! 0 ! 0, Q ! 1 ! 0, 0) (cd_depth fp) (dip fp)
           (- as_length fp / 2, as_length fp / 2)
           (- dd_width fp / 2, dd_width fp / 2)
           (ss s, ds s, 0))"

definition grid_point ::
  "'g dc3d \<Rightarrow> real \<Rightarrow> fault_parameters \<Rightarrow> fault_centroid \<Rightarrow> slip_components \<Rightarrow>
     real \<Rightarrow> real \<Rightarrow> py_error + vec3" where
  "grid_point solver alpha fp c s xi yj =
     (case dc3d_call solver alpha fp c s xi yj of
        (success, u, grad_u) \<Rightarrow>
          if success = 0 then Inr (map_frame (strike fp) u) else Inl AssertionError)"

text \<open>
  The three output arrays and the two nested loops. The body of the loops is
  \<open>grid_point\<close> at \<open>(x[i], y[j])\<close>; a failed assertion leaves both loops at once,
  and the statements after the loops (the plots) are not reached. The grid is the
  pair of coordinate lists \<open>x\<close> and \<open>y\<close>, and \<open>n\<close> is the pair of their lengths, as
  for \<^verbatim>\<open>x = linspace(-25000, 25000, n[0])\<close>.
\<close>

record displacement_field =
  UX :: array2
  UY :: array2
  UZ :: array2

definition store :: "displacement_field \<Rightarrow> nat \<Rightarrow> nat \<Rightarrow> vec3 \<Rightarrow> displacement_field" where
  "store F i j v =
     (case v of (vx, vy, vz) \<Rightarrow>
        \<lparr>UX = set2 (UX F) i j vx, UY = set2 (UY F) i j vy, UZ = set2 (UZ F) i j vz\<rparr>)"

fun loop_j ::
  "(nat \<Rightarrow> nat \<Rightarrow> py_error + vec3) \<Rightarrow> nat \<Rightarrow> nat list \<Rightarrow> displacement_field \<Rightarrow>
     py_error + displacement_field" where
  "loop_j body i [] F = Inr F"
| "loop_j body i (j # js) F =
     (case body i j of
        Inl e \<Rightarrow> Inl e
      | Inr v \<Rightarrow> loop_j body i js (store F i j v))"

fun loop_i ::
  "(nat \<Rightarrow> nat \<Rightarrow> py_error + vec3) \<Rightarrow> nat list \<Rightarrow> nat list \<Rightarrow> displacement_field \<Rightarrow>
     py_error + displacement_field" where
  "loop_i body [] js F = Inr F"
| "loop_i body (i # is) js F =
     (case loop_j body i js F of
        Inl e \<Rightarrow> Inl e
      | Inr F' \<Rightarrow> loop_i body is js F')"

definition grid_evaluation ::
  "'g dc3d \<Rightarrow> real \<Rightarrow> fault_parameters \<Rightarrow> fault_centroid \<Rightarrow> slip_components \<Rightarrow>
     real list \<Rightarrow> real list \<Rightarrow> py_error + displacement_field" where
  "grid_evaluation solver alpha fp c s x y =
     (let n0 = length x; n1 = length y
      in loop_i (\<lambda>i j. grid_point solver alpha fp c s (x ! i) (y ! j)) [0..<n0] [0..<n1]
           \<lparr>UX = zeros n0 n1, UY = zeros n0 n1, UZ = zeros n0 n1\<rparr>)"

text \<open>
  Reading the field: \<open>cell F i j\<close> is the triple \<^verbatim>\<open>(UX[i, j], UY[i, j], UZ[i, j])\<close>,
  and \<open>field_shape F n0 n1\<close> says that the three arrays have shape \<open>(n0, n1)\<close>.
\<close>

definition cell :: "displacement_field \<Rightarrow> nat \<Rightarrow> nat \<Rightarrow> vec3" where
  "cell F i j = (UX F ! i ! j, UY F ! i ! j, UZ F ! i ! j)"

definition field_shape :: "displacement_field \<Rightarrow> nat \<Rightarrow> nat \<Rightarrow> bool" where
  "field_shape F n0 n1 =
     (has_shape (UX F) n0 n1 \<and> has_shape (UY F) n0 n1 \<and> has_shape (UZ F) n0 n1)"

text \<open>
  The notebook from the material cell to the end of the loops, on the grid
  \<^verbatim>\<open>linspace(-25000, 25000, n[k])\<close>: the cells run in order and the first
  exception ends the run. As for the centroid cell, the tangent routine is an
  argument of \<open>okada_model_with\<close>, and \<open>okada_model\<close> uses the exact tangent.
\<close>

definition okada_model_with ::
  "(real \<Rightarrow> real) \<Rightarrow> 'g dc3d \<Rightarrow> real \<Rightarrow> real \<Rightarrow> fault_parameters \<Rightarrow> nat \<Rightarrow> nat \<Rightarrow>
     py_error + displacement_field" where
  "okada_model_with tanf solver lmda mu fp n0 n1 =
     (case okada_alpha lmda mu of
        Inl e \<Rightarrow> Inl e
      | Inr alpha \<Rightarrow>
          (case centroid_with tanf fp of
             Inl e \<Rightarrow> Inl e
           | Inr c \<Rightarrow>
               grid_evaluation solver alpha fp c (slip_decomposition fp)
                 (linspace (- 25000) 25000 n0) (linspace (- 25000) 25000 n1)))"

definition okada_model ::
  "'g dc3d \<Rightarrow> real \<Rightarrow> real \<Rightarrow> fault_parameters \<Rightarrow> nat \<Rightarrow> nat \<Rightarrow> py_error + displacement_field" where
  "okada_model solver lmda mu fp n0 n1 = okada_model_with tan solver lmda mu fp n0 n1"

section \<open>Line-of-sight projection\<close>

text \<open>
  \<^verbatim>\<open>
  p_vec = [sin(radians(phi))*sin(radians(theta)), -cos(radians(phi))*sin(radians(theta)),
           -cos(radians(theta))]
  ULOS_X = np.multiply(UX,p_vec[0])
  ULOS_Y = np.multiply(UY,p_vec[1])
  ULOS_Z = np.multiply(UZ,p_vec[2])
  ULOS = ULOS_X + ULOS_Y + ULOS_Z
  \<close>
\<close>

definition p_vec :: "real \<Rightarrow> real \<Rightarrow> real list" where
  "p_vec theta phi =
     [sin (radians phi) * sin (radians theta),
      - cos (radians phi) * sin (radians theta),
      - cos (radians theta)]"

record los_field =
  ULOS_X :: array2
  ULOS_Y :: array2
  ULOS_Z :: array2
  ULOS :: array2

definition los_projection :: "displacement_field \<Rightarrow> real list \<Rightarrow> los_field" where
  "los_projection F p =
     (let X = np_multiply (UX F) (p ! 0);
          Y = np_multiply (UY F) (p ! 1);
          Z = np_multiply (UZ F) (p ! 2)
      in \<lparr>ULOS_X = X, ULOS_Y = Y, ULOS_Z = Z, ULOS = np_add (np_add X Y) Z\<rparr>)"

section \<open>Compositions and sample inputs\<close>

text \<open>
  \<open>round_trip\<close> applies to one vector the two rotations of the loop body in turn:
  the forward rotation \<^verbatim>\<open>R.dot(P)\<close> of the observation point and then the three
  assignments that rotate a displacement back into map coordinates.
\<close>

definition round_trip :: "real \<Rightarrow> vec3 \<Rightarrow> vec3" where
  "round_trip strk v =
     (case v of (v0, v1, v2) \<Rightarrow>
        (let Q = np_dot (R strk) [[v0], [v1]] in map_frame strk (Q ! 0 ! 0, Q ! 1 ! 0, v2)))"

text \<open>
  Two stand-ins for \<^verbatim>\<open>dc3dwrapper\<close>, used to run the loops on concrete grids. Both
  return a displacement that is linear in the slip vector; \<open>linear_dc3d\<close> always
  reports success and \<open>halfplane_dc3d\<close> reports failure where the rotated
  \<open>x\<close> coordinate is negative.
\<close>

definition linear_dc3d :: "unit dc3d" where
  "linear_dc3d alpha obs depth dp al aw disl =
     (case obs of (ox, oy, oz) \<Rightarrow>
        case disl of (d1, d2, d3) \<Rightarrow> (0, (ox * d1, oy * d2 + d1, depth * d3), ()))"


text \<open>
  Two faults striking east, where the trigonometry is exact: \<open>east_fault\<close> slips
  by 2 and \<open>still_fault\<close> does not slip.
\<close>

definition east_fault :: fault_parameters where
  "east_fault =
     \<lparr>strike = 90, dip = 45, rake = 0, slip = 2, as_length = 4, dd_width = 2,
      cd_depth = 3, xs = 0, ys = 0\<rparr>"

definition still_fault :: fault_parameters where
  "still_fault =
     \<lparr>strike = 90, dip = 45, rake = 0, slip = 0, as_length = 4, dd_width = 2,
      cd_depth = 3, xs = 0, ys = 0\<rparr>"

text \<open>
  The reference fault laid flat (\<open>dip = 0\<close>) and stood upright (\<open>dip = 90\<close>).
  In double precision \<^verbatim>\<open>radians(90)\<close> is the double just below \<open>pi / 2\<close>, and
  \<^verbatim>\<open>tan\<close> returns the finite value \<^verbatim>\<open>1.633123935319537e+16\<close> there.
  \<open>tan_finite_at_90\<close> is the exact tangent with that value in place of the pole
  at \<open>pi / 2\<close>.
\<close>

definition flat_fault :: fault_parameters where
  "flat_fault = reference_fault\<lparr>dip := 0\<rparr>"

definition upright_fault :: fault_parameters where
  "upright_fault = reference_fault\<lparr>dip := 90\<rparr>"

definition tan_finite_at_90 :: "real \<Rightarrow> real" where
  "tan_finite_at_90 t = (if t = pi / 2 then 16331239353195370 else tan t)"

section \<open>Angles and the rotation matrix\<close>

lemma radians_90: "radians 90 = pi / 2"
  by (simp add: radians_def)

lemma radians_0: "radians 0 = 0"
  by (simp add: radians_def)

lemma R_entries:
  "R strk = [[sin (radians strk), cos (radians strk)], [- cos (radians strk), sin (radians strk)]]"
proof -
  have "radians (strk - 90) = radians strk - pi / 2"
    by (simp add: radians_def left_diff_distrib)
  then show ?thesis
    by (simp add: R_def cos_diff sin_diff)
qed

lemma np_dot_2x2:
  "np_dot [[a, b], [c, d]] [[e, f], [g, h]] = [[a * e + b * g, a * f + b * h], [c * e + d * g, c * f + d * h]]"
  by (simp add: np_dot_def ncols_def column_def numeral_2_eq_2 upt_rec)

lemma np_dot_2x1:
  "np_dot [[a, b], [c, d]] [[p], [q]] = [[a * p + b * q], [c * p + d * q]]"
  by (simp add: np_dot_def ncols_def column_def)

lemma np_transpose_2x2:
  "np_transpose [[a, b], [c, d]] = [[a, c], [b, d]]"
  by (simp add: np_transpose_def ncols_def column_def numeral_2_eq_2 upt_rec)

lemma unrotate_fst:
  fixes s c p q :: real
  assumes "s * s + c * c = 1"
  shows "s * (s * p + c * q) - c * (s * q - c * p) = p"
proof -
  have "s * (s * p + c * q) - c * (s * q - c * p) = (s * s + c * c) * p"
    by (simp add: algebra_simps)
  with assms show ?thesis by simp
qed

lemma unrotate_snd:
  fixes s c p q :: real
  assumes "s * s + c * c = 1"
  shows "c * (s * p + c * q) + s * (s * q - c * p) = q"
proof -
  have "c * (s * p + c * q) + s * (s * q - c * p) = (s * s + c * c) * q"
    by (simp add: algebra_simps)
  with assms show ?thesis by simp
qed

lemma R_90: "R 90 = [[1, 0], [0, 1]]"
  by (simp add: R_entries radians_90)

lemma radians_30: "radians 30 = pi / 6"
  by (simp add: radians_def)

lemma radians_45: "radians 45 = pi / 4"
  by (simp add: radians_def)

lemma radians_180: "radians 180 = pi"
  by (simp add: radians_def)

lemma tan_radians_pos:
  assumes "0 < d" "d < 90"
  shows "0 < tan (radians d)"
proof (rule tan_gt_zero)
  show "0 < radians d"
    using assms(1) by (simp add: radians_def)
  have "d * (pi / 180) < 90 * (pi / 180)"
    using assms(2) by (simp add: mult_strict_right_mono)
  then show "radians d < pi / 2"
    by (simp add: radians_def)
qed

lemma radians_85: "radians 85 = pi / 2 - pi / 36"
  by (simp add: radians_def)

lemma radians_91: "radians 91 = pi / 2 + pi / 180"
  by (simp add: radians_def)

lemma radians_minus_1: "radians (- 1) = - (pi / 180)"
  by (simp add: radians_def)

lemma tan_85: "tan (radians 85) = cos (pi / 36) / sin (pi / 36)"
  unfolding radians_85 tan_def sin_diff cos_diff by simp

lemma sin_91: "sin (radians 91) = cos (pi / 180)"
  unfolding radians_91 sin_add by simp

lemma cos_91: "cos (radians 91) = - sin (pi / 180)"
  unfolding radians_91 cos_add by simp

section \<open>Enclosures of sine and cosine at 1 and 5 degrees\<close>

text \<open>
  Taylor polynomials with the Lagrange remainder enclose \<open>sin\<close> and \<open>cos\<close> at
  rational points; \<open>sin (pi / 6) = 1 / 2\<close> and the monotonicity of \<open>sin\<close> then
  enclose \<open>pi\<close>, and with it the sine and cosine of 1 and 5 degrees.
\<close>

lemma fact7: "fact 7 = (5040::real)"
  by (simp add: fact_numeral)

lemma fact8: "fact 8 = (40320::real)"
  by (simp add: fact_numeral)

lemma fact11: "fact 11 = (39916800::real)"
  by (simp add: fact_numeral)

lemma sin_sum7:
  fixes x :: real
  shows "(\<Sum>m<7. sin_coeff m * x ^ m) = x - x ^ 3 / 6 + x ^ 5 / 120"
  by (simp add: eval_nat_numeral sin_coeff_Suc cos_coeff_Suc)

lemma sin_sum11:
  fixes x :: real
  shows "(\<Sum>m<11. sin_coeff m * x ^ m) = x - x ^ 3 / 6 + x ^ 5 / 120 - x ^ 7 / 5040 + x ^ 9 / 362880"
  by (simp add: eval_nat_numeral sin_coeff_Suc cos_coeff_Suc)

lemma cos_sum8:
  fixes x :: real
  shows "(\<Sum>m<8. cos_coeff m * x ^ m) = 1 - x ^ 2 / 2 + x ^ 4 / 24 - x ^ 6 / 720"
  by (simp add: eval_nat_numeral sin_coeff_Suc cos_coeff_Suc)

lemma sin_taylor7:
  fixes x :: real
  shows "\<bar>sin x - (x - x ^ 3 / 6 + x ^ 5 / 120)\<bar> \<le> \<bar>x\<bar> ^ 7 / 5040"
proof -
  have "\<bar>sin x - (x - x ^ 3 / 6 + x ^ 5 / 120)\<bar> \<le> inverse 5040 * \<bar>x\<bar> ^ 7"
    using Maclaurin_sin_bound [of x 7] unfolding sin_sum7 fact7 .
  also have "inverse 5040 * \<bar>x\<bar> ^ 7 = \<bar>x\<bar> ^ 7 / 5040"
    by (simp only: divide_inverse mult.commute)
  finally show ?thesis .
qed

lemma sin_taylor11:
  fixes x :: real
  shows "\<bar>sin x - (x - x ^ 3 / 6 + x ^ 5 / 120 - x ^ 7 / 5040 + x ^ 9 / 362880)\<bar>
           \<le> \<bar>x\<bar> ^ 11 / 39916800"
proof -
  have "\<bar>sin x - (x - x ^ 3 / 6 + x ^ 5 / 120 - x ^ 7 / 5040 + x ^ 9 / 362880)\<bar>
          \<le> inverse 39916800 * \<bar>x\<bar> ^ 11"
    using Maclaurin_sin_bound [of x 11] unfolding sin_sum11 fact11 .
  also have "inverse 39916800 * \<bar>x\<bar> ^ 11 = \<bar>x\<bar> ^ 11 / 39916800"
    by (simp only: divide_inverse mult.commute)
  finally show ?thesis .
qed

lemma cos_taylor8:
  fixes x :: real
  shows "\<bar>cos x - (1 - x ^ 2 / 2 + x ^ 4 / 24 - x ^ 6 / 720)\<bar> \<le> \<bar>x\<bar> ^ 8 / 40320"
proof -
  from Maclaurin_cos_expansion [of x 8] obtain t where
    t: "cos x = (\<Sum>m<8. cos_coeff m * x ^ m) + cos (t + 1 / 2 * real 8 * pi) / fact 8 * x ^ 8"
    by blast
  let ?r = "cos (t + 1 / 2 * real 8 * pi)"
  have "cos x - (1 - x ^ 2 / 2 + x ^ 4 / 24 - x ^ 6 / 720) = ?r / 40320 * x ^ 8"
    using t unfolding cos_sum8 fact8 by simp
  then have "\<bar>cos x - (1 - x ^ 2 / 2 + x ^ 4 / 24 - x ^ 6 / 720)\<bar> = \<bar>?r / 40320 * x ^ 8\<bar>"
    by (simp only:)
  also have "\<dots> = \<bar>?r\<bar> * (\<bar>x\<bar> ^ 8 / 40320)"
    by (simp add: abs_mult power_abs)
  also have "\<dots> \<le> 1 * (\<bar>x\<bar> ^ 8 / 40320)"
    by (rule mult_right_mono) simp_all
  finally show ?thesis by simp
qed


lemma sin_taylor7_nonneg:
  fixes x :: real
  assumes "0 \<le> x"
  shows "x - x ^ 3 / 6 + x ^ 5 / 120 - x ^ 7 / 5040 \<le> sin x \<and>
         sin x \<le> x - x ^ 3 / 6 + x ^ 5 / 120 + x ^ 7 / 5040"
proof -
  have "\<bar>x\<bar> = x" using assms by simp
  with sin_taylor7 [of x] have "\<bar>sin x - (x - x ^ 3 / 6 + x ^ 5 / 120)\<bar> \<le> x ^ 7 / 5040"
    by (simp only:)
  then show ?thesis
    by (simp only: abs_le_iff) linarith
qed

lemma sin_taylor11_nonneg:
  fixes x :: real
  assumes "0 \<le> x"
  shows "x - x ^ 3 / 6 + x ^ 5 / 120 - x ^ 7 / 5040 + x ^ 9 / 362880 - x ^ 11 / 39916800 \<le> sin x \<and>
         sin x \<le> x - x ^ 3 / 6 + x ^ 5 / 120 - x ^ 7 / 5040 + x ^ 9 / 362880 + x ^ 11 / 39916800"
proof -
  have "\<bar>x\<bar> = x" using assms by simp
  with sin_taylor11 [of x]
  have "\<bar>sin x - (x - x ^ 3 / 6 + x ^ 5 / 120 - x ^ 7 / 5040 + x ^ 9 / 362880)\<bar>
          \<le> x ^ 11 / 39916800"
    by (simp only:)
  then show ?thesis
    by (simp only: abs_le_iff) linarith
qed

lemma cos_taylor8_nonneg:
  fixes x :: real
  assumes "0 \<le> x"
  shows "1 - x ^ 2 / 2 + x ^ 4 / 24 - x ^ 6 / 720 - x ^ 8 / 40320 \<le> cos x \<and>
         cos x \<le> 1 - x ^ 2 / 2 + x ^ 4 / 24 - x ^ 6 / 720 + x ^ 8 / 40320"
proof -
  have "\<bar>x\<bar> = x" using assms by simp
  with cos_taylor8 [of x]
  have "\<bar>cos x - (1 - x ^ 2 / 2 + x ^ 4 / 24 - x ^ 6 / 720)\<bar> \<le> x ^ 8 / 40320"
    by (simp only:)
  then show ?thesis
    by (simp only: abs_le_iff) linarith
qed

lemma sin_enclose:
  fixes x l u :: real
  assumes "0 \<le> l" "l \<le> x" "x \<le> u" "u \<le> 1"
    and lo: "sl < l - l ^ 3 / 6 + l ^ 5 / 120 - l ^ 7 / 5040"
    and hi: "u - u ^ 3 / 6 + u ^ 5 / 120 + u ^ 7 / 5040 < su"
  shows "sl < sin x \<and> sin x < su"
proof -
  have half: "1 \<le> pi / 2"
    using pi_ge_two by simp
  have u: "0 \<le> u"
    using assms(1-3) by simp
  have "sin l \<le> sin x"
    using assms(1-4) half by (subst sin_mono_le_eq) simp_all
  moreover have "sin x \<le> sin u"
    using assms(1-4) half by (subst sin_mono_le_eq) simp_all
  ultimately show ?thesis
    using sin_taylor7_nonneg [OF assms(1)] sin_taylor7_nonneg [OF u] lo hi by linarith
qed

lemma cos_enclose:
  fixes x l u :: real
  assumes "0 \<le> l" "l \<le> x" "x \<le> u" "u \<le> 1"
    and lo: "cl < 1 - u ^ 2 / 2 + u ^ 4 / 24 - u ^ 6 / 720 - u ^ 8 / 40320"
    and hi: "1 - l ^ 2 / 2 + l ^ 4 / 24 - l ^ 6 / 720 + l ^ 8 / 40320 < cu"
  shows "cl < cos x \<and> cos x < cu"
proof -
  have one: "1 \<le> pi"
    using pi_ge_two by simp
  have u: "0 \<le> u"
    using assms(1-3) by simp
  have "cos u \<le> cos x"
    using assms(1-4) one by (subst cos_mono_le_eq) simp_all
  moreover have "cos x \<le> cos l"
    using assms(1-4) one by (subst cos_mono_le_eq) simp_all
  ultimately show ?thesis
    using cos_taylor8_nonneg [OF assms(1)] cos_taylor8_nonneg [OF u] lo hi by linarith
qed

lemma pi_lower: "31415922 / 10000000 < pi"
proof -
  let ?a = "5235987 / 10000000 :: real"
  have a0: "0 \<le> ?a" by simp
  have "?a - ?a ^ 3 / 6 + ?a ^ 5 / 120 - ?a ^ 7 / 5040 + ?a ^ 9 / 362880
                  + ?a ^ 11 / 39916800 < 1 / 2"
    by (simp add: power_divide)
  with sin_taylor11_nonneg [OF a0] have "sin ?a < sin (pi / 6)"
    by (simp only: sin_30) linarith
  moreover have "?a \<le> pi / 2" "- (pi / 2) \<le> ?a"
    using pi_ge_two by simp_all
  moreover have "pi / 6 \<le> pi / 2" "- (pi / 2) \<le> pi / 6"
    by simp_all
  ultimately have "?a < pi / 6"
    by (simp only: sin_mono_less_eq)
  then show ?thesis by simp
qed

lemma pi_upper: "pi < 31415928 / 10000000"
proof -
  let ?b = "5235988 / 10000000 :: real"
  have b0: "0 \<le> ?b" by simp
  have "1 / 2 < ?b - ?b ^ 3 / 6 + ?b ^ 5 / 120 - ?b ^ 7 / 5040 + ?b ^ 9 / 362880
          - ?b ^ 11 / 39916800"
    by (simp add: power_divide)
  with sin_taylor11_nonneg [OF b0] have "sin (pi / 6) < sin ?b"
    by (simp only: sin_30) linarith
  moreover have "?b \<le> pi / 2" "- (pi / 2) \<le> ?b"
    using pi_ge_two by simp_all
  moreover have "pi / 6 \<le> pi / 2" "- (pi / 2) \<le> pi / 6"
    by simp_all
  ultimately have "pi / 6 < ?b"
    by (simp only: sin_mono_less_eq)
  then show ?thesis by simp
qed


lemma one_degree:
  "174524 / 10000000 < sin (pi / 180) \<and> sin (pi / 180) < 174525 / 10000000 \<and>
   9998476 / 10000000 < cos (pi / 180) \<and> cos (pi / 180) < 9998477 / 10000000"
proof -
  let ?l = "1745329 / 100000000 :: real" and ?u = "1308997 / 75000000 :: real"
  have l: "?l \<le> pi / 180" using pi_lower by simp
  have u: "pi / 180 \<le> ?u" using pi_upper by simp
  have "174524 / 10000000 < sin (pi / 180) \<and> sin (pi / 180) < 174525 / 10000000"
    by (rule sin_enclose [OF _ l u]) (simp_all add: power_divide)
  moreover have "9998476 / 10000000 < cos (pi / 180) \<and> cos (pi / 180) < 9998477 / 10000000"
    by (rule cos_enclose [OF _ l u]) (simp_all add: power_divide)
  ultimately show ?thesis by simp
qed

lemma five_degrees:
  "871557 / 10000000 < sin (pi / 36) \<and> sin (pi / 36) < 871558 / 10000000 \<and>
   9961946 / 10000000 < cos (pi / 36) \<and> cos (pi / 36) < 9961947 / 10000000"
proof -
  let ?l = "1745329 / 20000000 :: real" and ?u = "1308997 / 15000000 :: real"
  have l: "?l \<le> pi / 36" using pi_lower by simp
  have u: "pi / 36 \<le> ?u" using pi_upper by simp
  have "871557 / 10000000 < sin (pi / 36) \<and> sin (pi / 36) < 871558 / 10000000"
    by (rule sin_enclose [OF _ l u]) (simp_all add: power_divide)
  moreover have "9961946 / 10000000 < cos (pi / 36) \<and> cos (pi / 36) < 9961947 / 10000000"
    by (rule cos_enclose [OF _ l u]) (simp_all add: power_divide)
  ultimately show ?thesis by simp
qed

lemma quotient_product_bounds:
  fixes s t w :: real
  assumes s: "s1 < s" "s < s2" and t: "t1 < t" "t < t2" and w: "w1 < w" "w < w2"
    and pos: "0 < s1" "0 < t1" "0 < w1"
  shows "s1 / t2 * w1 < s / t * w \<and> s / t * w < s2 / t1 * w2"
proof -
  have t0: "0 < t" "0 < t2" using t pos by simp_all
  have s0: "0 < s" using s pos by simp
  have w0: "0 < w" using w pos by simp
  have q1: "s1 / t2 < s / t"
    using s(1) t(2) t0 pos(1) by (intro frac_less2) simp_all
  have q2: "s / t < s2 / t1"
    using s(2) t(1) pos(2) s0 by (intro frac_less) simp_all
  have q0: "0 < s1 / t2" "0 < s / t"
    using pos t0 s0 by simp_all
  have "s1 / t2 * w1 < s / t * w"
    using q1 w(1) q0 pos(3) by (intro mult_strict_mono) simp_all
  moreover have "s / t * w < s2 / t1 * w2"
    using q2 w(2) q0 w0 by (intro mult_strict_mono) simp_all
  ultimately show ?thesis by simp
qed

section \<open>Arrays and the grid loops\<close>

lemma has_shape_nth:
  "has_shape A n0 n1 \<Longrightarrow> i < n0 \<Longrightarrow> length (A ! i) = n1"
  by (simp add: has_shape_def list_all_length)

lemma has_shape_set2:
  assumes "has_shape A n0 n1"
  shows "has_shape (set2 A i j v) n0 n1"
  using assms
  by (cases "i < length A") (auto simp: has_shape_def set2_def list_all_length nth_list_update)

lemma nth_set2:
  assumes "has_shape A n0 n1" "i < n0" "j < n1" "a < n0" "b < n1"
  shows "set2 A i j v ! a ! b = (if a = i \<and> b = j then v else A ! a ! b)"
  using assms
  by (auto simp: has_shape_def set2_def list_all_length nth_list_update)

lemma has_shape_zeros: "has_shape (zeros n0 n1) n0 n1"
  by (simp add: has_shape_def zeros_def list_all_length)

lemma nth_zeros: "i < n0 \<Longrightarrow> j < n1 \<Longrightarrow> zeros n0 n1 ! i ! j = 0"
  by (simp add: zeros_def)

lemma has_shape_eqI:
  assumes "has_shape A n0 n1" "has_shape B n0 n1"
    and "\<And>i j. i < n0 \<Longrightarrow> j < n1 \<Longrightarrow> A ! i ! j = B ! i ! j"
  shows "A = B"
proof (rule nth_equalityI)
  show "length A = length B"
    using assms(1,2) by (simp add: has_shape_def)
next
  fix i assume "i < length A"
  then have i: "i < n0" using assms(1) by (simp add: has_shape_def)
  show "A ! i = B ! i"
  proof (rule nth_equalityI)
    show "length (A ! i) = length (B ! i)"
      using has_shape_nth [OF assms(1) i] has_shape_nth [OF assms(2) i] by simp
  next
    fix j assume "j < length (A ! i)"
    then have "j < n1" using has_shape_nth [OF assms(1) i] by simp
    then show "A ! i ! j = B ! i ! j" using assms(3) i by simp
  qed
qed

lemma field_shape_store:
  "field_shape F n0 n1 \<Longrightarrow> field_shape (store F i j v) n0 n1"
  by (cases v) (simp add: field_shape_def store_def has_shape_set2)

lemma cell_store:
  assumes "field_shape F n0 n1" "i < n0" "j < n1" "a < n0" "b < n1"
  shows "cell (store F i j v) a b = (if a = i \<and> b = j then v else cell F a b)"
  using assms
  by (cases v) (simp add: field_shape_def store_def cell_def nth_set2 [where ?n0.0 = n0 and ?n1.0 = n1])

lemma loop_j_Inr:
  assumes "loop_j body i js F = Inr F'" "field_shape F n0 n1" "i < n0" "\<forall>j\<in>set js. j < n1"
  shows "field_shape F' n0 n1 \<and>
         (\<forall>j\<in>set js. body i j = Inr (cell F' i j)) \<and>
         (\<forall>a<n0. \<forall>b<n1. \<not> (a = i \<and> b \<in> set js) \<longrightarrow> cell F' a b = cell F a b)"
  using assms
proof (induction js arbitrary: F)
  case Nil
  then show ?case by simp
next
  case (Cons j js)
  from Cons.prems(1) obtain v where v: "body i j = Inr v"
    and rest: "loop_j body i js (store F i j v) = Inr F'"
    by (auto split: sum.splits)
  have j: "j < n1" using Cons.prems(4) by simp
  have sh: "field_shape (store F i j v) n0 n1"
    using Cons.prems(2) by (rule field_shape_store)
  have IH: "field_shape F' n0 n1 \<and>
         (\<forall>k\<in>set js. body i k = Inr (cell F' i k)) \<and>
         (\<forall>a<n0. \<forall>b<n1. \<not> (a = i \<and> b \<in> set js) \<longrightarrow> cell F' a b = cell (store F i j v) a b)"
    using Cons.IH [OF rest sh Cons.prems(3)] Cons.prems(4) by simp
  have here: "body i j = Inr (cell F' i j)"
  proof (cases "j \<in> set js")
    case True
    with IH show ?thesis by blast
  next
    case False
    with IH Cons.prems(3) j have "cell F' i j = cell (store F i j v) i j" by blast
    also have "\<dots> = v"
      using cell_store [OF Cons.prems(2) Cons.prems(3) j Cons.prems(3) j] by simp
    finally show ?thesis using v by simp
  qed
  have other: "cell F' a b = cell F a b"
    if "a < n0" "b < n1" "\<not> (a = i \<and> b \<in> set (j # js))" for a b
  proof -
    from that IH have "cell F' a b = cell (store F i j v) a b" by auto
    also have "\<dots> = cell F a b"
      using cell_store [OF Cons.prems(2) Cons.prems(3) j that(1,2)] that(3) by auto
    finally show ?thesis .
  qed
  from IH here other show ?case by auto
qed

lemma loop_j_success:
  assumes "\<forall>j\<in>set js. \<exists>v. body i j = Inr v"
  shows "\<exists>F'. loop_j body i js F = Inr F'"
  using assms
proof (induction js arbitrary: F)
  case Nil
  then show ?case by simp
next
  case (Cons j js)
  then obtain v where "body i j = Inr v" by auto
  with Cons show ?case by simp
qed


lemma loop_i_Inr:
  assumes "loop_i body is js F = Inr F'" "field_shape F n0 n1"
    "\<forall>i\<in>set is. i < n0" "\<forall>j\<in>set js. j < n1"
  shows "field_shape F' n0 n1 \<and>
         (\<forall>i\<in>set is. \<forall>j\<in>set js. body i j = Inr (cell F' i j)) \<and>
         (\<forall>a<n0. \<forall>b<n1. \<not> (a \<in> set is \<and> b \<in> set js) \<longrightarrow> cell F' a b = cell F a b)"
  using assms
proof (induction "is" arbitrary: F)
  case Nil
  then show ?case by simp
next
  case (Cons i "is")
  from Cons.prems(1) obtain F1 where row: "loop_j body i js F = Inr F1"
    and rest: "loop_i body is js F1 = Inr F'"
    by (auto split: sum.splits)
  have i: "i < n0" using Cons.prems(3) by simp
  note J = loop_j_Inr [OF row Cons.prems(2) i Cons.prems(4)]
  have IH: "field_shape F' n0 n1 \<and>
         (\<forall>k\<in>set is. \<forall>j\<in>set js. body k j = Inr (cell F' k j)) \<and>
         (\<forall>a<n0. \<forall>b<n1. \<not> (a \<in> set is \<and> b \<in> set js) \<longrightarrow> cell F' a b = cell F1 a b)"
    using Cons.IH [OF rest _ _ Cons.prems(4)] J Cons.prems(3) by simp
  have here: "body i j = Inr (cell F' i j)" if "j \<in> set js" for j
  proof (cases "i \<in> set is")
    case True
    with IH that show ?thesis by blast
  next
    case False
    have "j < n1" using that Cons.prems(4) by simp
    with False IH i have "cell F' i j = cell F1 i j" by blast
    with J that show ?thesis by simp
  qed
  have other: "cell F' a b = cell F a b"
    if "a < n0" "b < n1" "\<not> (a \<in> set (i # is) \<and> b \<in> set js)" for a b
  proof -
    from that IH have "cell F' a b = cell F1 a b" by auto
    also have "\<dots> = cell F a b" using J that by auto
    finally show ?thesis .
  qed
  from IH here other show ?case by auto
qed

lemma loop_i_success:
  assumes "\<forall>i\<in>set is. \<forall>j\<in>set js. \<exists>v. body i j = Inr v"
  shows "\<exists>F'. loop_i body is js F = Inr F'"
  using assms
proof (induction "is" arbitrary: F)
  case Nil
  then show ?case by simp
next
  case (Cons i "is")
  then have "\<forall>j\<in>set js. \<exists>v. body i j = Inr v" by simp
  with loop_j_success [of js body i F] obtain F1 where "loop_j body i js F = Inr F1" by blast
  with Cons show ?case by simp
qed


lemma grid_point_cases:
  "grid_point solver alpha fp c s xi yj =
     (if fst (dc3d_call solver alpha fp c s xi yj) = 0
      then Inr (map_frame (strike fp) (fst (snd (dc3d_call solver alpha fp c s xi yj))))
      else Inl AssertionError)"
  by (simp add: grid_point_def split: prod.splits)

lemma field_shape_zeros:
  "field_shape \<lparr>UX = zeros n0 n1, UY = zeros n0 n1, UZ = zeros n0 n1\<rparr> n0 n1"
  by (simp add: field_shape_def has_shape_zeros)

lemma grid_evaluation_Inr:
  assumes "grid_evaluation solver alpha fp c s x y = Inr F"
  shows "field_shape F (length x) (length y) \<and>
         (\<forall>i<length x. \<forall>j<length y. grid_point solver alpha fp c s (x ! i) (y ! j) = Inr (cell F i j))"
  using loop_i_Inr [OF assms [unfolded grid_evaluation_def Let_def] field_shape_zeros]
  by simp


lemma grid_evaluation_complete:
  assumes ok: "\<forall>i<length x. \<forall>j<length y. fst (dc3d_call solver alpha fp c s (x ! i) (y ! j)) = 0"
  shows "\<exists>F. grid_evaluation solver alpha fp c s x y = Inr F \<and> field_shape F (length x) (length y) \<and>
           (\<forall>i<length x. \<forall>j<length y. cell F i j =
              map_frame (strike fp) (fst (snd (dc3d_call solver alpha fp c s (x ! i) (y ! j)))))"
proof -
  let ?body = "\<lambda>i j. grid_point solver alpha fp c s (x ! i) (y ! j)"
  have "\<forall>i\<in>set [0..<length x]. \<forall>j\<in>set [0..<length y]. \<exists>v. ?body i j = Inr v"
  proof (intro ballI)
    fix i j assume "i \<in> set [0..<length x]" "j \<in> set [0..<length y]"
    with ok have "fst (dc3d_call solver alpha fp c s (x ! i) (y ! j)) = 0"
      by simp
    then have "?body i j =
        Inr (map_frame (strike fp) (fst (snd (dc3d_call solver alpha fp c s (x ! i) (y ! j)))))"
      by (simp add: grid_point_cases)
    then show "\<exists>v. ?body i j = Inr v" by (rule exI)
  qed
  then obtain F where F: "grid_evaluation solver alpha fp c s x y = Inr F"
    unfolding grid_evaluation_def Let_def
    using loop_i_success [where body = ?body and ?is = "[0..<length x]" and js = "[0..<length y]"]
    by meson
  have "cell F i j = map_frame (strike fp) (fst (snd (dc3d_call solver alpha fp c s (x ! i) (y ! j))))"
    if "i < length x" "j < length y" for i j
  proof -
    from grid_evaluation_Inr [OF F] that
    have "grid_point solver alpha fp c s (x ! i) (y ! j) = Inr (cell F i j)" by simp
    then show ?thesis
      by (simp add: grid_point_cases split: if_splits)
  qed
  with F grid_evaluation_Inr [OF F] show ?thesis
    by simp
qed

lemma field_eq_zerosI:
  assumes "field_shape F n0 n1" "\<And>i j. i < n0 \<Longrightarrow> j < n1 \<Longrightarrow> cell F i j = (0, 0, 0)"
  shows "F = \<lparr>UX = zeros n0 n1, UY = zeros n0 n1, UZ = zeros n0 n1\<rparr>"
proof -
  have "UX F = zeros n0 n1"
  proof (rule has_shape_eqI [of _ n0 n1])
    fix i j assume "i < n0" "j < n1"
    with assms(2) [of i j] show "UX F ! i ! j = zeros n0 n1 ! i ! j"
      by (simp add: cell_def nth_zeros)
  qed (use assms(1) in \<open>simp_all add: field_shape_def has_shape_zeros\<close>)
  moreover have "UY F = zeros n0 n1"
  proof (rule has_shape_eqI [of _ n0 n1])
    fix i j assume "i < n0" "j < n1"
    with assms(2) [of i j] show "UY F ! i ! j = zeros n0 n1 ! i ! j"
      by (simp add: cell_def nth_zeros)
  qed (use assms(1) in \<open>simp_all add: field_shape_def has_shape_zeros\<close>)
  moreover have "UZ F = zeros n0 n1"
  proof (rule has_shape_eqI [of _ n0 n1])
    fix i j assume "i < n0" "j < n1"
    with assms(2) [of i j] show "UZ F ! i ! j = zeros n0 n1 ! i ! j"
      by (simp add: cell_def nth_zeros)
  qed (use assms(1) in \<open>simp_all add: field_shape_def has_shape_zeros\<close>)
  ultimately show ?thesis by simp
qed

lemma east_grid_eval:
  "grid_evaluation linear_dc3d a east_fault \<lparr>rc = 3, rcx = 0, rcy = -3, xc = 0, yc = -3\<rparr>
      \<lparr>ss = 2, ds = 0\<rparr> [1, 2] [0]
   = Inr \<lparr>UX = [[2], [4]], UY = [[- 2], [- 2]], UZ = [[0], [0]]\<rparr>"
  by (simp add: grid_evaluation_def zeros_def grid_point_def dc3d_call_def okada_point_def
      R_90 np_dot_2x1 linear_dc3d_def east_fault_def map_frame_def radians_90 store_def set2_def)

section \<open>What the grid loops store\<close>

text \<open>
  C2. For every grid point \<open>(i, j)\<close> of a completed grid evaluation, with
  \<open>(u0, u1, u2)\<close> the displacement the solver returned there, the stored components
  are the formulas of the notebook with their signs:
  \<open>UX[i, j] = u0 * sin(strike) - u1 * cos(strike)\<close>,
  \<open>UY[i, j] = u0 * cos(strike) - u1 * sin(strike)\<close>, and \<open>UZ[i, j] = u2\<close>.
\<close>

theorem stored_components:
  assumes "grid_evaluation solver alpha fp c s x y = Inr F"
    and "i < length x" and "j < length y"
    and "dc3d_call solver alpha fp c s (x ! i) (y ! j) = (success, (u0, u1, u2), grad_u)"
  shows "UX F ! i ! j = u0 * sin (radians (strike fp)) - u1 * cos (radians (strike fp)) \<and>
         UY F ! i ! j = u0 * cos (radians (strike fp)) - u1 * sin (radians (strike fp)) \<and>
         UZ F ! i ! j = u2"
proof -
  from grid_evaluation_Inr [OF assms(1)] assms(2,3)
  have "grid_point solver alpha fp c s (x ! i) (y ! j) = Inr (cell F i j)"
    by simp
  with assms(4) have "cell F i j = map_frame (strike fp) (u0, u1, u2)"
    by (simp add: grid_point_def split: if_splits)
  then show ?thesis
    by (simp add: cell_def map_frame_def)
qed


theorem stored_components_witness:
  "grid_evaluation linear_dc3d 0 east_fault \<lparr>rc = 3, rcx = 0, rcy = -3, xc = 0, yc = -3\<rparr>
      \<lparr>ss = 2, ds = 0\<rparr> [1, 2] [0]
     = Inr \<lparr>UX = [[2], [4]], UY = [[- 2], [- 2]], UZ = [[0], [0]]\<rparr> \<and>
   dc3d_call linear_dc3d 0 east_fault \<lparr>rc = 3, rcx = 0, rcy = -3, xc = 0, yc = -3\<rparr>
      \<lparr>ss = 2, ds = 0\<rparr> ([1, 2] ! 1) ([0] ! 0) = (0, (4, 2, 0), ()) \<and>
   [[2], [4::real]] ! 1 ! 0 = 4 * sin (radians 90) - 2 * cos (radians 90) \<and>
   [[- 2], [- 2::real]] ! 1 ! 0 = 4 * cos (radians 90) - 2 * sin (radians 90) \<and>
   [[0], [0::real]] ! 1 ! 0 = 0"
proof -
  let ?c = "\<lparr>rc = 3, rcx = 0, rcy = -3, xc = 0, yc = -3\<rparr>"
  let ?s = "\<lparr>ss = 2, ds = 0\<rparr>"
  have call: "dc3d_call linear_dc3d 0 east_fault ?c ?s ([1, 2] ! 1) ([0] ! 0) = (0, (4, 2, 0), ())"
    by (simp add: dc3d_call_def okada_point_def R_90 np_dot_2x1 linear_dc3d_def east_fault_def)
  have i: "1 < length [1, 2 :: real]" and j: "0 < length [0 :: real]"
    by simp_all
  from stored_components [OF east_grid_eval i j call] east_grid_eval call
  show ?thesis
    by (simp add: east_fault_def)
qed





text \<open>
  C9. With \<open>slip = 0\<close> the strike-slip and dip-slip components are both \<open>0\<close>, so
  the solver is called with the slip vector \<open>(0, 0, 0)\<close> at every grid point. If the
  solver returns the zero displacement for that slip vector, every field the grid
  evaluation returns is zero in all three arrays; and if the solver also reports
  success there, the evaluation does return that zero field.
\<close>

theorem zero_slip_zero_field:
  assumes "slip fp = 0"
    and "\<forall>a obs d dp al aw. fst (snd (solver a obs d dp al aw (0, 0, 0))) = (0, 0, 0)"
  shows "ss (slip_decomposition fp) = 0 \<and> ds (slip_decomposition fp) = 0 \<and>
         (\<forall>F. grid_evaluation solver alpha fp c (slip_decomposition fp) x y = Inr F \<longrightarrow>
              UX F = zeros (length x) (length y) \<and> UY F = zeros (length x) (length y) \<and> UZ F = zeros (length x) (length y)) \<and>
         ((\<forall>a obs d dp al aw. fst (solver a obs d dp al aw (0, 0, 0)) = 0) \<longrightarrow>
            grid_evaluation solver alpha fp c (slip_decomposition fp) x y =
              Inr \<lparr>UX = zeros (length x) (length y), UY = zeros (length x) (length y), UZ = zeros (length x) (length y)\<rparr>)"
proof -
  let ?s = "slip_decomposition fp"
  have s0: "ss ?s = 0" "ds ?s = 0"
    using assms(1) by (simp_all add: slip_decomposition_def)
  have u0: "fst (snd (dc3d_call solver alpha fp c ?s xi yj)) = (0, 0, 0)" for xi yj
    using assms(2) by (simp add: dc3d_call_def Let_def s0)
  have zero: "F = \<lparr>UX = zeros (length x) (length y), UY = zeros (length x) (length y), UZ = zeros (length x) (length y)\<rparr>"
    if F: "grid_evaluation solver alpha fp c ?s x y = Inr F" for F
  proof (rule field_eq_zerosI)
    show "field_shape F (length x) (length y)"
      using grid_evaluation_Inr [OF F] by simp
  next
    fix i j assume "i < length x" "j < length y"
    with grid_evaluation_Inr [OF F]
    have "grid_point solver alpha fp c ?s (x ! i) (y ! j) = Inr (cell F i j)"
      by simp
    then show "cell F i j = (0, 0, 0)"
      by (simp add: grid_point_cases u0 map_frame_def split: if_splits)
  qed
  have succ: "grid_evaluation solver alpha fp c ?s x y =
                Inr \<lparr>UX = zeros (length x) (length y), UY = zeros (length x) (length y), UZ = zeros (length x) (length y)\<rparr>"
    if ok: "\<forall>a obs d dp al aw. fst (solver a obs d dp al aw (0, 0, 0)) = 0"
  proof -
    have "\<forall>i<length x. \<forall>j<length y. fst (dc3d_call solver alpha fp c ?s (x ! i) (y ! j)) = 0"
      using ok by (simp add: dc3d_call_def Let_def s0)
    from grid_evaluation_complete [OF this]
    obtain F where "grid_evaluation solver alpha fp c ?s x y = Inr F"
      by blast
    with zero [of F] show ?thesis by simp
  qed
  have part: "\<forall>F. grid_evaluation solver alpha fp c ?s x y = Inr F \<longrightarrow>
              UX F = zeros (length x) (length y) \<and> UY F = zeros (length x) (length y) \<and> UZ F = zeros (length x) (length y)"
  proof (intro allI impI)
    fix F assume "grid_evaluation solver alpha fp c ?s x y = Inr F"
    from zero [OF this] show "UX F = zeros (length x) (length y) \<and> UY F = zeros (length x) (length y) \<and> UZ F = zeros (length x) (length y)"
      by simp
  qed
  from s0 part succ show ?thesis
    by blast
qed

theorem zero_slip_zero_field_witness:
  "slip still_fault = 0 \<and>
   (\<forall>a obs d dp al aw. fst (snd (linear_dc3d a obs d dp al aw (0, 0, 0))) = (0, 0, 0)) \<and>
   (\<forall>a obs d dp al aw. fst (linear_dc3d a obs d dp al aw (0, 0, 0)) = 0) \<and>
   ss (slip_decomposition still_fault) = 0 \<and> ds (slip_decomposition still_fault) = 0 \<and>
   grid_evaluation linear_dc3d 0 still_fault \<lparr>rc = 3, rcx = 0, rcy = -3, xc = 0, yc = -3\<rparr>
      (slip_decomposition still_fault) [1, 2] [0]
     = Inr \<lparr>UX = [[0], [0]], UY = [[0], [0]], UZ = [[0], [0]]\<rparr>"
proof -
  have h1: "slip still_fault = 0"
    by (simp add: still_fault_def)
  have h2: "\<forall>a obs d dp al aw. fst (snd (linear_dc3d a obs d dp al aw (0, 0, 0))) = (0, 0, 0)"
    by (simp add: linear_dc3d_def split: prod.splits)
  have h3: "\<forall>a obs d dp al aw. fst (linear_dc3d a obs d dp al aw (0, 0, 0)) = 0"
    by (simp add: linear_dc3d_def split: prod.splits)
  have z: "zeros (length [1, 2 :: real]) (length [0 :: real]) = [[0], [0]]"
    by (simp add: zeros_def)
  from zero_slip_zero_field [where fp = still_fault and solver = linear_dc3d and alpha = 0
      and c = "\<lparr>rc = 3, rcx = 0, rcy = -3, xc = 0, yc = -3\<rparr>"
      and x = "[1, 2]" and y = "[0]"] h1 h2 h3
  have "grid_evaluation linear_dc3d 0 still_fault \<lparr>rc = 3, rcx = 0, rcy = -3, xc = 0, yc = -3\<rparr>
      (slip_decomposition still_fault) [1, 2] [0]
     = Inr \<lparr>UX = zeros (length [1, 2 :: real]) (length [0 :: real]),
            UY = zeros (length [1, 2 :: real]) (length [0 :: real]),
            UZ = zeros (length [1, 2 :: real]) (length [0 :: real])\<rparr> \<and>
     ss (slip_decomposition still_fault) = 0 \<and> ds (slip_decomposition still_fault) = 0"
    by blast
  with h1 h2 h3 z show ?thesis
    by simp
qed


section \<open>The pointing vector\<close>

text \<open>
  C7. For every incidence angle \<open>theta\<close> and pointing azimuth \<open>phi\<close> the pointing
  vector computed by the notebook has unit norm: the squares of its three
  components add up to 1.
\<close>

theorem p_vec_unit_norm:
  "(p_vec theta phi ! 0)\<^sup>2 + (p_vec theta phi ! 1)\<^sup>2 + (p_vec theta phi ! 2)\<^sup>2 = 1"
proof -
  let ?a = "sin (radians phi)" and ?b = "cos (radians phi)"
  let ?s = "sin (radians theta)" and ?c = "cos (radians theta)"
  have "(?a * ?s)\<^sup>2 + (- ?b * ?s)\<^sup>2 + (- ?c)\<^sup>2 = ?a\<^sup>2 * ?s\<^sup>2 + ?b\<^sup>2 * ?s\<^sup>2 + ?c\<^sup>2"
    by (simp add: power_mult_distrib)
  also have "\<dots> = (?a\<^sup>2 + ?b\<^sup>2) * ?s\<^sup>2 + ?c\<^sup>2"
    by (simp only: distrib_right)
  also have "\<dots> = 1"
    by simp
  finally show ?thesis
    by (simp add: p_vec_def)
qed

section \<open>The line-of-sight field\<close>

lemma np_multiply_shape:
  "has_shape A n0 n1 \<Longrightarrow> has_shape (np_multiply A k) n0 n1"
  by (simp add: has_shape_def np_multiply_def list_all_length)

lemma np_multiply_nth:
  "has_shape A n0 n1 \<Longrightarrow> i < n0 \<Longrightarrow> j < n1 \<Longrightarrow> np_multiply A k ! i ! j = A ! i ! j * k"
  by (simp add: has_shape_def np_multiply_def list_all_length)

lemma np_add_shape:
  "has_shape A n0 n1 \<Longrightarrow> has_shape B n0 n1 \<Longrightarrow> has_shape (np_add A B) n0 n1"
  by (simp add: has_shape_def np_add_def list_all_length)

lemma np_add_nth:
  "has_shape A n0 n1 \<Longrightarrow> has_shape B n0 n1 \<Longrightarrow> i < n0 \<Longrightarrow> j < n1 \<Longrightarrow>
     np_add A B ! i ! j = A ! i ! j + B ! i ! j"
  by (simp add: has_shape_def np_add_def list_all_length)

lemma ULOS_nth:
  assumes "field_shape F n0 n1" "i < n0" "j < n1"
  shows "ULOS (los_projection F p) ! i ! j =
           UX F ! i ! j * (p ! 0) + UY F ! i ! j * (p ! 1) + UZ F ! i ! j * (p ! 2)"
proof -
  let ?X = "np_multiply (UX F) (p ! 0)"
  let ?Y = "np_multiply (UY F) (p ! 1)"
  let ?Z = "np_multiply (UZ F) (p ! 2)"
  have sh: "has_shape (UX F) n0 n1" "has_shape (UY F) n0 n1" "has_shape (UZ F) n0 n1"
    using assms(1) by (simp_all add: field_shape_def)
  have shm: "has_shape ?X n0 n1" "has_shape ?Y n0 n1" "has_shape ?Z n0 n1"
    using sh by (simp_all add: np_multiply_shape)
  have "np_add (np_add ?X ?Y) ?Z ! i ! j = np_add ?X ?Y ! i ! j + ?Z ! i ! j"
    using np_add_shape [OF shm(1,2)] shm(3) assms(2,3) by (rule np_add_nth)
  also have "np_add ?X ?Y ! i ! j = ?X ! i ! j + ?Y ! i ! j"
    using shm(1,2) assms(2,3) by (rule np_add_nth)
  finally show ?thesis
    using sh assms(2,3) by (simp add: los_projection_def Let_def np_multiply_nth [of _ n0 n1])
qed

lemma ULOS_shape:
  assumes "field_shape F n0 n1"
  shows "has_shape (ULOS (los_projection F p)) n0 n1"
  using assms
  by (simp add: los_projection_def Let_def field_shape_def np_add_shape np_multiply_shape)

lemma p_vec_90_30: "p_vec 90 30 = [1 / 2, - (sqrt 3 / 2), 0]"
  by (simp add: p_vec_def radians_90 radians_30 sin_30 cos_30)

text \<open>
  C3. For a displacement field of shape \<open>(n0, n1)\<close>, the line-of-sight array has the
  same shape and at every cell \<open>(i, j)\<close> it is the dot product with the pointing
  vector: \<open>ULOS[i, j] = UX[i, j] * px + UY[i, j] * py + UZ[i, j] * pz\<close>. In particular,
  if the field is \<open>(1, 0, 0)\<close> at every cell then \<open>ULOS\<close> is \<open>px\<close> at every cell.
\<close>

theorem los_dot_product:
  assumes "field_shape F n0 n1"
  shows "has_shape (ULOS (los_projection F (p_vec theta phi))) n0 n1 \<and>
         (\<forall>i<n0. \<forall>j<n1.
            ULOS (los_projection F (p_vec theta phi)) ! i ! j =
              UX F ! i ! j * (p_vec theta phi ! 0) + UY F ! i ! j * (p_vec theta phi ! 1)
                + UZ F ! i ! j * (p_vec theta phi ! 2)) \<and>
         ((\<forall>i<n0. \<forall>j<n1. cell F i j = (1, 0, 0)) \<longrightarrow>
          (\<forall>i<n0. \<forall>j<n1. ULOS (los_projection F (p_vec theta phi)) ! i ! j = p_vec theta phi ! 0))"
proof (intro conjI allI impI)
  show "has_shape (ULOS (los_projection F (p_vec theta phi))) n0 n1"
    using assms by (rule ULOS_shape)
next
  fix i j assume "i < n0" "j < n1"
  with assms show "ULOS (los_projection F (p_vec theta phi)) ! i ! j =
      UX F ! i ! j * (p_vec theta phi ! 0) + UY F ! i ! j * (p_vec theta phi ! 1)
        + UZ F ! i ! j * (p_vec theta phi ! 2)"
    by (rule ULOS_nth)
next
  fix i j
  assume one: "\<forall>i<n0. \<forall>j<n1. cell F i j = (1, 0, 0)" and ij: "i < n0" "j < n1"
  then have "UX F ! i ! j = 1" "UY F ! i ! j = 0" "UZ F ! i ! j = 0"
    by (simp_all add: cell_def)
  with ULOS_nth [OF assms ij, of "p_vec theta phi"]
  show "ULOS (los_projection F (p_vec theta phi)) ! i ! j = p_vec theta phi ! 0"
    by simp
qed

theorem los_dot_product_witness:
  "field_shape \<lparr>UX = [[1, 1]], UY = [[0, 0]], UZ = [[0, 0]]\<rparr> 1 2 \<and>
   cell \<lparr>UX = [[1, 1]], UY = [[0, 0]], UZ = [[0, 0]]\<rparr> 0 0 = (1, 0, 0) \<and>
   cell \<lparr>UX = [[1, 1]], UY = [[0, 0]], UZ = [[0, 0]]\<rparr> 0 1 = (1, 0, 0) \<and>
   ULOS (los_projection \<lparr>UX = [[1, 1]], UY = [[0, 0]], UZ = [[0, 0]]\<rparr> (p_vec 90 30)) ! 0 ! 1
     = 1 * (1 / 2) + 0 * (- (sqrt 3 / 2)) + 0 * 0 \<and>
   ULOS (los_projection \<lparr>UX = [[1, 1]], UY = [[0, 0]], UZ = [[0, 0]]\<rparr> (p_vec 90 30)) ! 0 ! 0
     = p_vec 90 30 ! 0 \<and>
   p_vec 90 30 ! 0 = 1 / 2"
proof -
  let ?F = "\<lparr>UX = [[1, 1]], UY = [[0, 0]], UZ = [[0, 0::real]]\<rparr>"
  have sh: "field_shape ?F 1 2"
    by (simp add: field_shape_def has_shape_def)
  have c0: "cell ?F 0 0 = (1, 0, 0)" and c1: "cell ?F 0 1 = (1, 0, 0)"
    by (simp_all add: cell_def)
  have ones: "\<forall>i<1. \<forall>j<2. cell ?F i j = (1, 0, 0)"
    using c0 c1 by (simp add: less_2_cases_iff)
  note T = los_dot_product [OF sh, of 90 30]
  from T have "ULOS (los_projection ?F (p_vec 90 30)) ! 0 ! 1 =
      UX ?F ! 0 ! 1 * (p_vec 90 30 ! 0) + UY ?F ! 0 ! 1 * (p_vec 90 30 ! 1)
        + UZ ?F ! 0 ! 1 * (p_vec 90 30 ! 2)"
    by simp
  then have a: "ULOS (los_projection ?F (p_vec 90 30)) ! 0 ! 1
     = 1 * (1 / 2) + 0 * (- (sqrt 3 / 2)) + 0 * 0"
    by (simp add: p_vec_90_30)
  from T ones have b: "ULOS (los_projection ?F (p_vec 90 30)) ! 0 ! 0 = p_vec 90 30 ! 0"
    by simp
  from sh c0 c1 a b show ?thesis
    by (simp add: p_vec_90_30)
qed

section \<open>Geometry normalisation: the formulas\<close>

lemma centroid_with_Inr:
  assumes "tanf (radians (dip fp)) \<noteq> 0"
  shows "centroid_with tanf fp =
     Inr \<lparr>rc = cd_depth fp / tanf (radians (dip fp)),
          rcx = cd_depth fp / tanf (radians (dip fp)) * sin (radians (strike fp + 90)),
          rcy = cd_depth fp / tanf (radians (dip fp)) * cos (radians (strike fp + 90)),
          xc = xs fp + cd_depth fp / tanf (radians (dip fp)) * sin (radians (strike fp + 90)),
          yc = ys fp + cd_depth fp / tanf (radians (dip fp)) * cos (radians (strike fp + 90))\<rparr>"
  using assms by (simp add: centroid_with_def py_div_def Let_def)

text \<open>
  C6. For every fault whose dip lies strictly between 0 and 90 degrees, the centroid
  cell raises nothing and computes \<open>rc = cd_depth / tan(dip)\<close>,
  \<open>rcx = rc * sin(strike + 90)\<close>, \<open>rcy = rc * cos(strike + 90)\<close>,
  \<open>xc = xs + rcx\<close>, \<open>yc = ys + rcy\<close>; and the slip cell computes
  \<open>ss = slip * cos(rake)\<close>, \<open>ds = slip * sin(rake)\<close> (angles in degrees).
\<close>

theorem geometry_normalization:
  assumes "0 < dip fp" "dip fp < 90"
  shows "centroid fp =
     Inr \<lparr>rc = cd_depth fp / tan (radians (dip fp)),
          rcx = cd_depth fp / tan (radians (dip fp)) * sin (radians (strike fp + 90)),
          rcy = cd_depth fp / tan (radians (dip fp)) * cos (radians (strike fp + 90)),
          xc = xs fp + cd_depth fp / tan (radians (dip fp)) * sin (radians (strike fp + 90)),
          yc = ys fp + cd_depth fp / tan (radians (dip fp)) * cos (radians (strike fp + 90))\<rparr> \<and>
     slip_decomposition fp =
       \<lparr>ss = slip fp * cos (radians (rake fp)), ds = slip fp * sin (radians (rake fp))\<rparr>"
proof -
  have "tan (radians (dip fp)) \<noteq> 0"
    using tan_radians_pos [OF assms] by simp
  then show ?thesis
    unfolding centroid_def
    by (simp add: centroid_with_Inr slip_decomposition_def)
qed

theorem geometry_normalization_witness:
  "0 < dip east_fault \<and> dip east_fault < 90 \<and>
   centroid east_fault = Inr \<lparr>rc = 3, rcx = 0, rcy = - 3, xc = 0, yc = - 3\<rparr> \<and>
   slip_decomposition east_fault = \<lparr>ss = 2, ds = 0\<rparr>"
proof -
  have d: "0 < dip east_fault" "dip east_fault < 90"
    by (simp_all add: east_fault_def)
  from geometry_normalization [OF d] d show ?thesis
    by (simp add: east_fault_def radians_45 radians_180 radians_0 tan_45)
qed

section \<open>The reference scenario\<close>

lemma reference_centroid:
  "centroid reference_fault =
     Inr \<lparr>rc = 6000 * (sin (pi / 36) / cos (pi / 36)),
          rcx = 6000 * (sin (pi / 36) / cos (pi / 36)) * cos (pi / 180),
          rcy = - (6000 * (sin (pi / 36) / cos (pi / 36)) * sin (pi / 180)),
          xc = 6000 * (sin (pi / 36) / cos (pi / 36)) * cos (pi / 180),
          yc = - (6000 * (sin (pi / 36) / cos (pi / 36)) * sin (pi / 180))\<rparr>"
proof -
  have pos: "0 < sin (pi / 36)" "0 < cos (pi / 36)"
    using five_degrees by simp_all
  have d: "dip reference_fault = 85" and k: "strike reference_fault + 90 = 91"
    and z: "cd_depth reference_fault = 6000" "xs reference_fault = 0" "ys reference_fault = 0"
    by (simp_all add: reference_fault_def)
  have "tan (radians (dip reference_fault)) \<noteq> 0"
    using pos unfolding d tan_85 by simp
  from centroid_with_Inr [where tanf = tan and fp = reference_fault, OF this] show ?thesis
    unfolding centroid_def d k z tan_85 sin_91 cos_91 by simp
qed

lemma reference_slip:
  "slip_decomposition reference_fault = \<lparr>ss = 2 * cos (pi / 180), ds = - (2 * sin (pi / 180))\<rparr>"
  by (simp add: slip_decomposition_def reference_fault_def radians_minus_1)

lemma reference_bounds:
  "524845 / 1000 < 6000 * (sin (pi / 36) / cos (pi / 36)) * cos (pi / 180) \<and>
   6000 * (sin (pi / 36) / cos (pi / 36)) * cos (pi / 180) < 524855 / 1000 \<and>
   9155 / 1000 < 6000 * (sin (pi / 36) / cos (pi / 36)) * sin (pi / 180) \<and>
   6000 * (sin (pi / 36) / cos (pi / 36)) * sin (pi / 180) < 9165 / 1000"
proof -
  let ?s5 = "sin (pi / 36)" and ?c5 = "cos (pi / 36)"
  let ?s1 = "sin (pi / 180)" and ?c1 = "cos (pi / 180)"
  note five = five_degrees and one = one_degree
  have x: "(871557 / 10000000) / (9961947 / 10000000) * (9998476 / 10000000) < ?s5 / ?c5 * ?c1 \<and>
           ?s5 / ?c5 * ?c1 < (871558 / 10000000) / (9961946 / 10000000) * (9998477 / 10000000)"
    using five one by (intro quotient_product_bounds) simp_all
  have y: "(871557 / 10000000) / (9961947 / 10000000) * (174524 / 10000000) < ?s5 / ?c5 * ?s1 \<and>
           ?s5 / ?c5 * ?s1 < (871558 / 10000000) / (9961946 / 10000000) * (174525 / 10000000)"
    using five one by (intro quotient_product_bounds) simp_all
  from x y show ?thesis
    by simp
qed


lemma reference_centroid_xy:
  "\<exists>c. centroid reference_fault = Inr c \<and>
       xc c = 6000 * (sin (pi / 36) / cos (pi / 36)) * cos (pi / 180) \<and>
       yc c = - (6000 * (sin (pi / 36) / cos (pi / 36)) * sin (pi / 180))"
  unfolding reference_centroid by simp

text \<open>
  C5, as amended. For the reference inputs \<open>strike = 1\<close>, \<open>dip = 85\<close>, \<open>rake = -1\<close>,
  \<open>slip = 2\<close>, centroid depth \<open>6000\<close> and reference point \<open>(0, 0)\<close>, the centroid
  cell returns a centroid within \<open>0.005\<close> of \<open>(524.85, -9.16)\<close> at depth \<open>6000\<close>,
  and the slip cell returns a strike-slip within \<open>0.00005\<close> of \<open>1.9997\<close> and a
  dip-slip within \<open>0.00005\<close> of \<open>-0.0349\<close>.
\<close>

theorem reference_scenario:
  "\<exists>c. centroid reference_fault = Inr c \<and>
       \<bar>xc c - 52485 / 100\<bar> < 5 / 1000 \<and> \<bar>yc c - (- (916 / 100))\<bar> < 5 / 1000 \<and>
       cd_depth reference_fault = 6000 \<and>
       \<bar>ss (slip_decomposition reference_fault) - 19997 / 10000\<bar> < 5 / 100000 \<and>
       \<bar>ds (slip_decomposition reference_fault) - (- (349 / 10000))\<bar> < 5 / 100000"
proof -
  let ?x = "6000 * (sin (pi / 36) / cos (pi / 36)) * cos (pi / 180)"
  let ?y = "6000 * (sin (pi / 36) / cos (pi / 36)) * sin (pi / 180)"
  from reference_centroid_xy obtain c where c: "centroid reference_fault = Inr c"
    and xc: "xc c = ?x" and yc: "yc c = - ?y"
    by blast
  have x: "\<bar>xc c - 52485 / 100\<bar> < 5 / 1000"
    unfolding xc using reference_bounds by (simp only: abs_less_iff) linarith
  have y: "\<bar>yc c - (- (916 / 100))\<bar> < 5 / 1000"
    unfolding yc using reference_bounds by (simp only: abs_less_iff) linarith
  have ss: "ss (slip_decomposition reference_fault) = 2 * cos (pi / 180)"
    and ds: "ds (slip_decomposition reference_fault) = - (2 * sin (pi / 180))"
    unfolding reference_slip by simp_all
  have s: "\<bar>ss (slip_decomposition reference_fault) - 19997 / 10000\<bar> < 5 / 100000"
    unfolding ss using one_degree by (simp only: abs_less_iff) linarith
  have d: "\<bar>ds (slip_decomposition reference_fault) - (- (349 / 10000))\<bar> < 5 / 100000"
    unfolding ds using one_degree by (simp only: abs_less_iff) linarith
  have z: "cd_depth reference_fault = 6000"
    by (simp add: reference_fault_def)
  from c x y z s d show ?thesis
    by blast
qed

text \<open>
  C5 as stated does not hold: the centroid of the reference scenario is not near
  \<open>(-524.94, 9.16)\<close>. Its
  \<open>x\<close> coordinate is more than \<open>1049\<close> away from \<open>-524.94\<close> and its \<open>y\<close>
  coordinate more than \<open>18\<close> away from \<open>9.16\<close>.
\<close>

theorem reference_centroid_signs:
  "\<not> isl (centroid reference_fault) \<and>
   1049 < \<bar>xc (projr (centroid reference_fault)) - (- (52494 / 100))\<bar> \<and>
   18 < \<bar>yc (projr (centroid reference_fault)) - 916 / 100\<bar>"
proof -
  let ?x = "6000 * (sin (pi / 36) / cos (pi / 36)) * cos (pi / 180)"
  let ?y = "6000 * (sin (pi / 36) / cos (pi / 36)) * sin (pi / 180)"
  from reference_centroid_xy obtain c where c: "centroid reference_fault = Inr c"
    and xc: "xc c = ?x" and yc: "yc c = - ?y"
    by blast
  have x: "1049 < \<bar>xc c - (- (52494 / 100))\<bar>"
    unfolding xc using reference_bounds by linarith
  have y: "18 < \<bar>yc c - 916 / 100\<bar>"
    unfolding yc using reference_bounds by linarith
  show ?thesis
    unfolding c using x y by simp
qed

section \<open>Degenerate dips\<close>

lemma centroid_with_error:
  "centroid_with tanf fp = Inl e \<longleftrightarrow> tanf (radians (dip fp)) = 0 \<and> e = ZeroDivisionError"
  by (auto simp: centroid_with_def py_div_def Let_def)

lemma okada_model_with_centroid_error:
  assumes "lmda + 2 * mu \<noteq> 0" "centroid_with tanf fp = Inl e"
  shows "okada_model_with tanf solver lmda mu fp n0 n1 = Inl e"
  using assms by (simp add: okada_model_with_def okada_alpha_def py_div_def)

text \<open>
  C8, as amended. The notebook has no check of the geometry. The centroid cell
  raises exactly when the tangent it computes is \<open>0\<close>, and then the error is
  \<open>ZeroDivisionError\<close>. For \<open>dip = 0\<close> it does raise, and the run ends there,
  before the grid loops and whatever the solver is.
\<close>

theorem degenerate_dip:
  "(centroid_with tanf fp = Inl ZeroDivisionError \<longleftrightarrow> tanf (radians (dip fp)) = 0) \<and>
   (\<forall>e. centroid_with tanf fp = Inl e \<longrightarrow> e = ZeroDivisionError) \<and>
   (dip fp = 0 \<longrightarrow>
      centroid fp = Inl ZeroDivisionError \<and>
      (lmda + 2 * mu \<noteq> 0 \<longrightarrow> okada_model solver lmda mu fp n0 n1 = Inl ZeroDivisionError))"
proof (intro conjI allI impI)
  show "centroid_with tanf fp = Inl ZeroDivisionError \<longleftrightarrow> tanf (radians (dip fp)) = 0"
    by (simp add: centroid_with_error)
next
  fix e assume "centroid_with tanf fp = Inl e"
  then show "e = ZeroDivisionError"
    by (simp add: centroid_with_error)
next
  assume "dip fp = 0"
  then show "centroid fp = Inl ZeroDivisionError"
    by (simp add: centroid_def centroid_with_error radians_0)
next
  assume "dip fp = 0" and "lmda + 2 * mu \<noteq> 0"
  then show "okada_model solver lmda mu fp n0 n1 = Inl ZeroDivisionError"
    unfolding okada_model_def
    by (intro okada_model_with_centroid_error) (simp_all add: centroid_with_error radians_0)
qed

theorem degenerate_dip_witness:
  "dip flat_fault = 0 \<and> tan (radians (dip flat_fault)) = 0 \<and>
   centroid_with tan flat_fault = Inl ZeroDivisionError \<and>
   centroid flat_fault = Inl ZeroDivisionError \<and>
   (30000000000 + 2 * 30000000000 \<noteq> (0::real)) \<and>
   okada_model linear_dc3d 30000000000 30000000000 flat_fault 101 101 = Inl ZeroDivisionError"
proof -
  have d: "dip flat_fault = 0"
    by (simp add: flat_fault_def)
  have t: "tan (radians (dip flat_fault)) = 0"
    by (simp add: d radians_0)
  have m: "30000000000 + 2 * 30000000000 \<noteq> (0::real)"
    by simp
  from degenerate_dip [of tan flat_fault 30000000000 30000000000 linear_dc3d 101 101] d t m
  show ?thesis
    by simp
qed

text \<open>
  C8 as stated does not hold at \<open>dip = 90\<close>: with the finite tangent that double
  precision gives there, the centroid cell raises nothing (it returns \<open>rc = 6000 / 1.633e16\<close>), and the run
  goes on through the grid loops.
\<close>

theorem upright_fault_no_error:
  "\<not> isl (centroid_with tan_finite_at_90 upright_fault) \<and>
   rc (projr (centroid_with tan_finite_at_90 upright_fault)) = 6000 / 16331239353195370 \<and>
   \<not> isl (okada_model_with tan_finite_at_90 linear_dc3d 30000000000 30000000000 upright_fault 101 101)"
proof -
  have t: "tan_finite_at_90 (radians (dip upright_fault)) = 16331239353195370"
    by (simp add: upright_fault_def reference_fault_def radians_90 tan_finite_at_90_def)
  then have nz: "tan_finite_at_90 (radians (dip upright_fault)) \<noteq> 0"
    by simp
  note c = centroid_with_Inr [where tanf = tan_finite_at_90 and fp = upright_fault, OF nz]
  have a: "\<not> isl (centroid_with tan_finite_at_90 upright_fault)"
    by (simp add: c)
  have b: "rc (projr (centroid_with tan_finite_at_90 upright_fault)) = 6000 / 16331239353195370"
    by (simp add: c t) (simp add: upright_fault_def reference_fault_def)
  have "\<forall>i<length (linspace (- 25000) 25000 101). \<forall>j<length (linspace (- 25000) 25000 101).
          fst (dc3d_call linear_dc3d alpha upright_fault cc
          (slip_decomposition upright_fault)
          (linspace (- 25000) 25000 101 ! i) (linspace (- 25000) 25000 101 ! j)) = 0" for alpha cc
    by (simp add: dc3d_call_def Let_def linear_dc3d_def split: prod.splits)
  from grid_evaluation_complete [OF this]
  have g: "\<not> isl (grid_evaluation linear_dc3d alpha upright_fault cc
          (slip_decomposition upright_fault)
          (linspace (- 25000) 25000 101) (linspace (- 25000) 25000 101))" for alpha cc
    by (metis sum.disc(2))
  have "\<not> isl (okada_model_with tan_finite_at_90 linear_dc3d 30000000000 30000000000 upright_fault 101 101)"
    unfolding okada_model_with_def c by (simp add: okada_alpha_def py_div_def g)
  with a b show ?thesis by simp
qed

section \<open>The rotation is orthogonal; the back-rotation is not its inverse\<close>

text \<open>
  C10. For every strike, the matrix \<open>R\<close> built from the angle \<open>strike - 90\<close> degrees
  satisfies \<open>R\<^sup>T R = I\<close> and \<open>det R = 1\<close>, so the forward transform of an
  observation point is undone by \<open>R\<^sup>T\<close>.
\<close>

theorem R_orthogonal:
  "np_dot (np_transpose (R strk)) (R strk) = identity2 \<and> det2 (R strk) = 1 \<and>
   np_dot (np_transpose (R strk)) (np_dot (R strk) [[p], [q]]) = [[p], [q]]"
proof -
  let ?s = "sin (radians strk)" and ?c = "cos (radians strk)"
  have sq: "?s * ?s + ?c * ?c = 1"
    using sin_cos_squared_add [of "radians strk"] by (simp add: power2_eq_square)
  have sq': "?c * ?c + ?s * ?s = 1"
    using sq by (simp add: add.commute)
  have a: "np_dot (np_transpose (R strk)) (R strk) = identity2"
    by (simp add: R_entries np_transpose_2x2 np_dot_2x2 identity2_def sq sq')
  have b: "det2 (R strk) = 1"
    by (simp add: R_entries det2_def sq)
  have c: "np_dot (np_transpose (R strk)) (np_dot (R strk) [[p], [q]]) = [[p], [q]]"
    using unrotate_fst [OF sq, of p q] unrotate_snd [OF sq, of p q]
    by (simp add: R_entries np_transpose_2x2 np_dot_2x1)
  from a b c show ?thesis by simp
qed

text \<open>
  The round trip through the forward rotation and the three assignments keeps the
  east and the vertical component, and turns the north component by twice the
  strike.
\<close>

lemma round_trip_formula:
  "round_trip strk (v0, v1, v2) =
     (v0, v0 * sin (2 * radians strk) + v1 * cos (2 * radians strk), v2)"
proof -
  let ?s = "sin (radians strk)" and ?c = "cos (radians strk)"
  have sq: "?s * ?s + ?c * ?c = 1"
    using sin_cos_squared_add [of "radians strk"] by (simp add: power2_eq_square)
  have e: "(?s * v0 + ?c * v1) * ?s - (?s * v1 - ?c * v0) * ?c = v0"
    using unrotate_fst [OF sq, of v0 v1] by (simp add: mult.commute)
  have n: "(?s * v0 + ?c * v1) * ?c - (?s * v1 - ?c * v0) * ?s
             = v0 * (2 * ?s * ?c) + v1 * (?c\<^sup>2 - ?s\<^sup>2)"
    by (simp add: algebra_simps power2_eq_square)
  show ?thesis
    using e n by (simp add: round_trip_def R_entries np_dot_2x1 map_frame_def sin_double cos_double)
qed

text \<open>
  C1. The round-trip law asks that the forward rotation followed by the back-rotation
  returns the vector it started from. The code at strike 90 degrees sends the
  vector \<open>(0, 1, 0)\<close> to \<open>(0, -1, 0)\<close>: the north component comes back with the
  opposite sign.
\<close>

theorem round_trip_strike_90: "round_trip 90 (0, 1, 0) = (0, - 1, 0)"
  by (simp add: round_trip_def R_entries np_dot_2x1 map_frame_def radians_90)

end
